theory Spec2Isabelle
  imports Complex_Main
begin

section \<open>Python values, errors and tensors\<close>

text \<open>
  The exceptions that \<^verbatim>\<open>SCBert.py\<close> raises itself (\<^verbatim>\<open>ValueError\<close>, \<^verbatim>\<open>TypeError\<close>, with
  their messages) and the ones raised under it by Python and torch: \<^verbatim>\<open>IndexError\<close> for an
  index out of range, \<^verbatim>\<open>KeyError\<close> for a missing dictionary key, \<^verbatim>\<open>RuntimeError\<close> for
  shapes that cannot be combined or reduced. \<^verbatim>\<open>ExternalError\<close> stands for whatever the
  tokenizer or the encoder raises.
\<close>

datatype error =
    ValueError string
  | TypeError string
  | IndexError
  | KeyError
  | RuntimeError
  | ExternalError string

text \<open>The dynamically typed arguments of \<^verbatim>\<open>forward_and_pool\<close>.\<close>

datatype pyval =
    PyInt int
  | PyBool bool
  | PyFloat real
  | PyStr string
  | PyNone
  | PyList "pyval list"

text \<open>
  An entry of a float tensor is a real number or NaN. Rounding, overflow and infinities
  are not represented. NaN is kept because the code divides by a count that can be zero,
  always with a zero numerator (an empty sum), which gives NaN in torch.
\<close>

datatype scalar = Fl real | NaN

fun fadd :: "scalar \<Rightarrow> scalar \<Rightarrow> scalar" where
  "fadd (Fl a) (Fl b) = Fl (a + b)"
| "fadd _ _ = NaN"

fun fmax :: "scalar \<Rightarrow> scalar \<Rightarrow> scalar" where
  "fmax (Fl a) (Fl b) = Fl (max a b)"
| "fmax _ _ = NaN"

fun fdivn :: "scalar \<Rightarrow> nat \<Rightarrow> scalar" where
  "fdivn (Fl a) n = (if n = 0 then NaN else Fl (a / real n))"
| "fdivn NaN n = NaN"

text \<open>
  Float tensors of rank 0, 1 and 2. \<open>T2 c rows\<close> has \<open>length rows\<close> rows of \<open>c\<close> entries
  each; the width is stored because a tensor with no rows still has one. The index
  tensors that \<^verbatim>\<open>torch.max(_, axis=0)\<close> returns are \<open>ltensor\<close>.
\<close>

datatype tensor = T0 scalar | T1 "scalar list" | T2 nat "scalar list list"

datatype ltensor = L0 nat | L1 "nat list"

text \<open>
  What \<^verbatim>\<open>__sentence_pooling\<close> returns and \<^verbatim>\<open>texts_vectors\<close> collects: a float tensor, an
  index tensor, or the pair \<^verbatim>\<open>(values, indices)\<close> of \<^verbatim>\<open>torch.max(vectors, axis=0)\<close>.
\<close>

datatype pyobj = FloatT tensor | LongT ltensor | MaxT tensor ltensor

section \<open>Python and torch primitives\<close>

text \<open>\<^verbatim>\<open>str.lower()\<close>, on the ASCII letters.\<close>

definition lower_char :: "char \<Rightarrow> char" where
  "lower_char c =
     (case map_of (zip ''ABCDEFGHIJKLMNOPQRSTUVWXYZ'' ''abcdefghijklmnopqrstuvwxyz'') c of
        Some d \<Rightarrow> d
      | None \<Rightarrow> c)"

definition lower :: "string \<Rightarrow> string" where
  "lower s = map lower_char s"

text \<open>\<^verbatim>\<open>xs[i]\<close> on a tuple or list: negative indices count from the end.\<close>

definition py_index :: "'a list \<Rightarrow> int \<Rightarrow> error + 'a" where
  "py_index xs i =
     (if 0 \<le> i \<and> i < int (length xs) then Inr (xs ! nat i)
      else if i < 0 \<and> - i \<le> int (length xs) then Inr (xs ! nat (int (length xs) + i))
      else Inl IndexError)"

text \<open>\<^verbatim>\<open>xs[:k]\<close> and \<^verbatim>\<open>xs[1:]\<close>.\<close>

definition slice_to :: "int \<Rightarrow> 'a list \<Rightarrow> 'a list" where
  "slice_to k xs =
     (if k < 0 then take (length xs - nat (- k)) xs else take (nat k) xs)"

definition slice_from1 :: "'a list \<Rightarrow> 'a list" where
  "slice_from1 xs = drop 1 xs"

fun first_index :: "('a \<Rightarrow> bool) \<Rightarrow> 'a list \<Rightarrow> nat option" where
  "first_index P [] = None"
| "first_index P (x # xs) =
     (if P x then Some 0 else map_option Suc (first_index P xs))"

text \<open>Running a list of fallible computations, the first error wins.\<close>

fun collect :: "(error + 'a) list \<Rightarrow> error + 'a list" where
  "collect [] = Inr []"
| "collect (Inl e # rs) = Inl e"
| "collect (Inr x # rs) = (case collect rs of Inl e \<Rightarrow> Inl e | Inr xs \<Rightarrow> Inr (x # xs))"

text \<open>
  The span \<^verbatim>\<open>t[:eos_pos-1][1:]\<close> of a tensor along its first axis. A tensor of rank 0
  cannot be sliced.
\<close>

fun span :: "tensor \<Rightarrow> int \<Rightarrow> error + tensor" where
  "span (T2 c rows) eos_pos = Inr (T2 c (slice_from1 (slice_to (eos_pos - 1) rows)))"
| "span (T1 xs) eos_pos = Inr (T1 (slice_from1 (slice_to (eos_pos - 1) xs)))"
| "span (T0 s) eos_pos = Inl IndexError"

definition column :: "scalar list list \<Rightarrow> nat \<Rightarrow> scalar list" where
  "column rows j = map (\<lambda>r. r ! j) rows"

definition mean_list :: "scalar list \<Rightarrow> scalar" where
  "mean_list xs = fdivn (foldl fadd (Fl 0) xs) (length xs)"

text \<open>\<^verbatim>\<open>torch.mean(t, axis=0)\<close>: over no rows every mean is NaN.\<close>

fun mean_axis0 :: "tensor \<Rightarrow> tensor" where
  "mean_axis0 (T2 c rows) = T1 (map (\<lambda>j. mean_list (column rows j)) [0..<c])"
| "mean_axis0 (T1 xs) = T0 (mean_list xs)"
| "mean_axis0 (T0 s) = T0 s"

definition max_list :: "scalar list \<Rightarrow> scalar" where
  "max_list xs = foldl fmax (hd xs) (tl xs)"

definition argmax_list :: "scalar list \<Rightarrow> nat" where
  "argmax_list xs = (case first_index (\<lambda>x. x = max_list xs) xs of None \<Rightarrow> 0 | Some i \<Rightarrow> i)"

text \<open>
  \<^verbatim>\<open>torch.max(t, axis=0)\<close> returns the pair of the maxima and of their positions, and
  raises when there is nothing to reduce.
\<close>

fun max_axis0 :: "tensor \<Rightarrow> error + (tensor \<times> ltensor)" where
  "max_axis0 (T2 c rows) =
     (if rows = [] then Inl RuntimeError
      else Inr (T1 (map (\<lambda>j. max_list (column rows j)) [0..<c]),
                L1 (map (\<lambda>j. argmax_list (column rows j)) [0..<c])))"
| "max_axis0 (T1 xs) =
     (if xs = [] then Inl RuntimeError else Inr (T0 (max_list xs), L0 (argmax_list xs)))"
| "max_axis0 (T0 s) = Inr (T0 s, L0 0)"

text \<open>Broadcasting of two sizes of one axis.\<close>

definition bdim :: "nat \<Rightarrow> nat \<Rightarrow> nat option" where
  "bdim a b = (if a = b then Some a else if a = 1 then Some b else if b = 1 then Some a else None)"

definition expand :: "nat \<Rightarrow> 'a list \<Rightarrow> 'a list" where
  "expand n xs = (if length xs = n then xs else replicate n (hd xs))"

text \<open>A tensor seen with two axes, as broadcasting against a rank-2 tensor does.\<close>

fun as2d :: "tensor \<Rightarrow> nat \<times> scalar list list" where
  "as2d (T2 c rows) = (c, rows)"
| "as2d (T1 xs) = (length xs, [xs])"
| "as2d (T0 s) = (1, [[s]])"

text \<open>
  An elementwise binary operation with broadcasting, the first operand of rank 2:
  \<^verbatim>\<open>a.add(b)\<close> and \<^verbatim>\<open>torch.max(a, b)\<close>.
\<close>

definition broadcast2 :: "(scalar \<Rightarrow> scalar \<Rightarrow> scalar) \<Rightarrow> tensor \<Rightarrow> tensor \<Rightarrow> error + tensor" where
  "broadcast2 f a b =
     (let (ca, ra) = as2d a; (cb, rb) = as2d b
      in case (bdim (length ra) (length rb), bdim ca cb) of
           (Some n, Some c) \<Rightarrow>
             Inr (T2 c (map2 (\<lambda>x y. map2 f (expand c x) (expand c y)) (expand n ra) (expand n rb)))
         | _ \<Rightarrow> Inl RuntimeError)"

text \<open>
  \<^verbatim>\<open>torch.cat((a, b), dim=1)\<close>: the empty rank-1 tensor is skipped, two rank-2 tensors
  need the same number of rows.
\<close>

fun cat1 :: "tensor \<Rightarrow> tensor \<Rightarrow> error + tensor" where
  "cat1 (T1 []) (T2 c rows) = Inr (T2 c rows)"
| "cat1 (T2 c rows) (T1 []) = Inr (T2 c rows)"
| "cat1 (T2 ca ra) (T2 cb rb) =
     (if length ra = length rb then Inr (T2 (ca + cb) (map2 (@) ra rb)) else Inl RuntimeError)"
| "cat1 _ _ = Inl RuntimeError"

text \<open>\<^verbatim>\<open>t / n\<close> for a Python integer \<open>n\<close>.\<close>

fun tdiv :: "tensor \<Rightarrow> nat \<Rightarrow> tensor" where
  "tdiv (T2 c rows) n = T2 c (map (map (\<lambda>x. fdivn x n)) rows)"
| "tdiv (T1 xs) n = T1 (map (\<lambda>x. fdivn x n) xs)"
| "tdiv (T0 s) n = T0 (fdivn s n)"

text \<open>\<^verbatim>\<open>t.to(torch.int64)\<close> on a float: truncation towards zero.\<close>

definition to_int64 :: "real \<Rightarrow> int" where
  "to_int64 x = (if 0 \<le> x then \<lfloor>x\<rfloor> else \<lceil>x\<rceil>)"

section \<open>The model registry and the vectorizer\<close>

record model_dict =
  pad_id :: int
  model_name :: string

definition MODELS :: "string \<Rightarrow> model_dict option" where
  "MODELS name =
     (if name = ''flaubert'' then Some \<lparr>pad_id = 2, model_name = ''flaubert-base-uncased''\<rparr>
      else if name = ''camembert'' then Some \<lparr>pad_id = 1, model_name = ''camembert-base''\<rparr>
      else None)"

text \<open>
  The pretrained tokenizer and encoder are external: they are parameters. The encoder
  takes a batch of id rows and of mask rows and returns the tuple of hidden states, one
  entry per layer, each holding one rank-2 tensor per document of the batch.
\<close>

type_synonym hidden_states = "tensor list list"

record vectorizer =
  self_pad_id :: int
  tok_tokenize :: "string \<Rightarrow> error + string list"
  tok_encode :: "string \<Rightarrow> int \<Rightarrow> error + int list"
  encoder :: "int list list \<Rightarrow> int list list \<Rightarrow> error + hidden_states"

definition Vectorizer ::
  "(string \<Rightarrow> error + string list) \<Rightarrow> (string \<Rightarrow> int \<Rightarrow> error + int list) \<Rightarrow>
   (int list list \<Rightarrow> int list list \<Rightarrow> error + hidden_states) \<Rightarrow> string \<Rightarrow> error + vectorizer" where
  "Vectorizer tok enc mdl name =
     (case MODELS (lower name) of
        None \<Rightarrow> Inl KeyError
      | Some d \<Rightarrow> Inr \<lparr>self_pad_id = pad_id d, tok_tokenize = tok, tok_encode = enc, encoder = mdl\<rparr>)"

section \<open>tokenize\<close>

definition rectangular :: "'a list list \<Rightarrow> bool" where
  "rectangular rows = (case rows of [] \<Rightarrow> True | r # rs \<Rightarrow> list_all (\<lambda>x. length x = length r) rs)"

text \<open>
  \<^verbatim>\<open>tokenize\<close> runs the tokenizer over every text, then the encoder of ids with
  \<^verbatim>\<open>max_length=MAX_LEN\<close>, and builds the masks \<^verbatim>\<open>float(i != self.pad_id)\<close>. It checks
  nothing itself: an error is the tokenizer's, or torch refusing to build a tensor from
  rows of different lengths.
\<close>

definition tokenize ::
  "vectorizer \<Rightarrow> string list \<Rightarrow> int \<Rightarrow> error + (string list list \<times> int list list \<times> real list list)" where
  "tokenize self data MAX_LEN =
     (case collect (map (tok_tokenize self) data) of
        Inl e \<Rightarrow> Inl e
      | Inr tokenized_texts \<Rightarrow>
          (case collect (map (\<lambda>text. tok_encode self text MAX_LEN) data) of
             Inl e \<Rightarrow> Inl e
           | Inr input_ids \<Rightarrow>
               (let attention_masks =
                      map (\<lambda>seq. map (\<lambda>i. if i \<noteq> self_pad_id self then 1 else 0) seq) input_ids
                in if rectangular input_ids
                   then Inr (tokenized_texts, input_ids, attention_masks)
                   else Inl (TypeError ''can't convert np.ndarray of type numpy.object_''))))"

section \<open>Pooling\<close>

definition sentence_pooling :: "tensor \<Rightarrow> string \<Rightarrow> error + pyobj" where
  "sentence_pooling vectors pooling_method =
     (if lower pooling_method = ''average'' then Inr (FloatT (mean_axis0 vectors))
      else if lower pooling_method = ''max'' then
        (case max_axis0 vectors of
           Inl e \<Rightarrow> Inl e
         | Inr (values, indices) \<Rightarrow> Inr (MaxT values indices))
      else Inr (FloatT (T1 [])))"

text \<open>\<^verbatim>\<open>encoded_layers_b[layer][idx]\<close>.\<close>

definition layer_doc :: "hidden_states \<Rightarrow> int \<Rightarrow> nat \<Rightarrow> error + tensor" where
  "layer_doc encoded_layers_b layer idx =
     (case py_index encoded_layers_b layer of
        Inl e \<Rightarrow> Inl e
      | Inr t \<Rightarrow> py_index t (int idx))"

text \<open>The loops of \<^verbatim>\<open>__word_pooling\<close> over the layers, one per pooling method.\<close>

fun pool_layers ::
  "(tensor \<Rightarrow> tensor \<Rightarrow> error + tensor) \<Rightarrow> hidden_states \<Rightarrow> nat \<Rightarrow> int list \<Rightarrow> tensor \<Rightarrow> error + tensor" where
  "pool_layers f encoded_layers_b idx [] pooled_words = Inr pooled_words"
| "pool_layers f encoded_layers_b idx (layer # layers) pooled_words =
     (case layer_doc encoded_layers_b layer idx of
        Inl e \<Rightarrow> Inl e
      | Inr h \<Rightarrow>
          (case f pooled_words h of
             Inl e \<Rightarrow> Inl e
           | Inr p \<Rightarrow> pool_layers f encoded_layers_b idx layers p))"

definition placeholder :: "real \<Rightarrow> tensor" where
  "placeholder v = T2 768 (replicate 256 (replicate 768 (Fl v)))"

definition word_pooling :: "hidden_states \<Rightarrow> int list \<Rightarrow> nat \<Rightarrow> string \<Rightarrow> error + tensor" where
  "word_pooling encoded_layers_b layers idx pooling_method =
     (case (if lower pooling_method = ''concat''
            then pool_layers cat1 encoded_layers_b idx layers (T1 [])
            else Inr (T1 [])) of
        Inl e \<Rightarrow> Inl e
      | Inr pooled_words \<Rightarrow>
          if lower pooling_method = ''average'' then
            (case pool_layers (broadcast2 fadd) encoded_layers_b idx layers (placeholder 0) of
               Inl e \<Rightarrow> Inl e
             | Inr p \<Rightarrow> Inr (tdiv p (length layers)))
          else if lower pooling_method = ''max'' then
            pool_layers (broadcast2 fmax) encoded_layers_b idx layers (placeholder (- 100))
          else Inr pooled_words)"

section \<open>forward_and_pool\<close>

text \<open>\<^verbatim>\<open>__batch(range(0, N), n)\<close>: the index ranges of the successive batches.\<close>

function batch :: "nat \<Rightarrow> nat \<Rightarrow> nat \<Rightarrow> nat list list" where
  "batch ndx l n =
     (if l \<le> ndx \<or> n = 0 then [] else [ndx..<min (ndx + n) l] # batch (ndx + n) l n)"
  by pat_completeness auto
termination
  by (relation "measure (\<lambda>(ndx, l, n). l - ndx)") auto

text \<open>
  The true length of a row of ids: 0 when its last id is 1, otherwise the position of
  the first \<^verbatim>\<open>pad_id\<close>; indexing an empty row, or the empty result of \<^verbatim>\<open>nonzero()\<close>,
  raises.
\<close>

definition eos_position :: "int \<Rightarrow> int list \<Rightarrow> error + int" where
  "eos_position pad ids =
     (if ids = [] then Inl IndexError
      else if last ids = 1 then Inr 0
      else (case first_index (\<lambda>i. i = pad) ids of
              None \<Rightarrow> Inl IndexError
            | Some k \<Rightarrow> Inr (int k)))"

text \<open>The checks on \<^verbatim>\<open>layers\<close>: the result tells whether it is a list.\<close>

fun check_layer_list :: "pyval list \<Rightarrow> error option" where
  "check_layer_list [] = None"
| "check_layer_list (PyInt el # els) =
     (if el > 12 \<or> el < 1
      then Some (ValueError ''layers must be a int between 1 and 12 or a list of integers between 1 and 12'')
      else check_layer_list els)"
| "check_layer_list (_ # els) =
     Some (TypeError ''layers must be a int between 1 and 12 or a list of integers between 1 and 12'')"

fun check_layers :: "pyval \<Rightarrow> error + bool" where
  "check_layers (PyInt layers) =
     (if layers > 12 \<or> layers < 1
      then Inl (ValueError ''layers must be a int between 1 and 12 or a list of integers between 1 and 12'')
      else Inr False)"
| "check_layers (PyList layers) =
     (case check_layer_list layers of Some e \<Rightarrow> Inl e | None \<Rightarrow> Inr True)"
| "check_layers _ =
     Inl (TypeError ''layers must be a int between 1 and 12 or alist of integers between 1 and 12'')"

fun is_int :: "pyval \<Rightarrow> bool" where
  "is_int (PyInt _) = True"
| "is_int _ = False"

fun is_str :: "pyval \<Rightarrow> bool" where
  "is_str (PyStr _) = True"
| "is_str _ = False"

fun the_int :: "pyval \<Rightarrow> int" where
  "the_int (PyInt i) = i"
| "the_int _ = 0"

fun the_str :: "pyval \<Rightarrow> string" where
  "the_str (PyStr s) = s"
| "the_str _ = []"

text \<open>The argument checks of \<^verbatim>\<open>forward_and_pool\<close>, in the order of the source.\<close>

definition check_arguments :: "pyval \<Rightarrow> pyval \<Rightarrow> pyval \<Rightarrow> pyval \<Rightarrow> pyval \<Rightarrow> error + bool" where
  "check_arguments sentence_pooling_method word_pooling_method layers batch_size path_to_save =
     (if sentence_pooling_method \<notin> set [PyStr ''average'', PyStr ''max'']
      then Inl (ValueError ''sentence_pooling_method must be equal to `average` or `max`'')
      else if word_pooling_method \<notin> set [PyStr ''average'', PyStr ''max'', PyStr ''concat'']
      then Inl (ValueError ''word_pooling_method must be equal to `average`, `max` or `concat` '')
      else if \<not> is_int batch_size
      then Inl (TypeError ''batch_size must be a positive integer'')
      else if the_int batch_size \<le> 0
      then Inl (ValueError ''batch_size must be a positive integer'')
      else if \<not> is_str path_to_save \<and> path_to_save \<noteq> PyNone
      then Inl (TypeError ''path_to_save must be None or a string'')
      else check_layers layers)"

text \<open>
  Iterating over a pooled result, as \<^verbatim>\<open>for i, sentence in enumerate(pooled_vectors)\<close>
  with \<^verbatim>\<open>pooled_vectors[i]\<close> does: a tensor of rank 1 yields its entries as tensors of
  rank 0, the pair of \<^verbatim>\<open>torch.max\<close> yields its two components, and a tensor of rank 0
  cannot be iterated.
\<close>

fun items :: "pyobj \<Rightarrow> error + pyobj list" where
  "items (FloatT (T0 s)) = Inl (TypeError ''iteration over a 0-d tensor'')"
| "items (FloatT (T1 xs)) = Inr (map (\<lambda>x. FloatT (T0 x)) xs)"
| "items (FloatT (T2 c rows)) = Inr (map (\<lambda>r. FloatT (T1 r)) rows)"
| "items (LongT (L0 n)) = Inl (TypeError ''iteration over a 0-d tensor'')"
| "items (LongT (L1 ns)) = Inr (map (\<lambda>n. LongT (L0 n)) ns)"
| "items (MaxT values indices) = Inr [FloatT values, LongT indices]"

text \<open>
  The loop over the documents \<open>idx\<close> of a batch when \<^verbatim>\<open>layers\<close> is a list (lines 241 to
  248). Every \<open>idx\<close> is below \<^verbatim>\<open>N = len(input_ids_tensor)\<close>.
\<close>

fun pool_batch_list ::
  "int \<Rightarrow> int list list \<Rightarrow> hidden_states \<Rightarrow> int list \<Rightarrow> string \<Rightarrow> string \<Rightarrow> nat \<Rightarrow>
   nat list \<Rightarrow> pyobj list \<Rightarrow> error + pyobj list" where
  "pool_batch_list pad input_ids encoded_layers_b layers word_pooling_method
     sentence_pooling_method counter [] texts_vectors = Inr texts_vectors"
| "pool_batch_list pad input_ids encoded_layers_b layers word_pooling_method
     sentence_pooling_method counter (idx # b) texts_vectors =
     (case eos_position pad (input_ids ! idx) of
        Inl e \<Rightarrow> Inl e
      | Inr eos_pos \<Rightarrow>
     (case word_pooling encoded_layers_b layers (idx - counter) word_pooling_method of
        Inl e \<Rightarrow> Inl e
      | Inr word_vector \<Rightarrow>
     (case span word_vector eos_pos of
        Inl e \<Rightarrow> Inl e
      | Inr content \<Rightarrow>
     (case sentence_pooling content sentence_pooling_method of
        Inl e \<Rightarrow> Inl e
      | Inr pooled_vector \<Rightarrow>
          pool_batch_list pad input_ids encoded_layers_b layers word_pooling_method
            sentence_pooling_method counter b (texts_vectors @ [pooled_vector])))))"

text \<open>The same loop when \<^verbatim>\<open>layers\<close> is one integer (lines 253 to 260).\<close>

fun pool_batch_scalar ::
  "int \<Rightarrow> int list list \<Rightarrow> tensor list \<Rightarrow> string \<Rightarrow> nat \<Rightarrow> nat list \<Rightarrow> pyobj list \<Rightarrow>
   error + pyobj list" where
  "pool_batch_scalar pad input_ids words_vector sentence_pooling_method counter [] texts_vectors =
     Inr texts_vectors"
| "pool_batch_scalar pad input_ids words_vector sentence_pooling_method counter (idx # b) texts_vectors =
     (case eos_position pad (input_ids ! idx) of
        Inl e \<Rightarrow> Inl e
      | Inr eos_pos \<Rightarrow>
     (case py_index words_vector (int (idx - counter)) of
        Inl e \<Rightarrow> Inl e
      | Inr word_vector \<Rightarrow>
     (case span word_vector eos_pos of
        Inl e \<Rightarrow> Inl e
      | Inr content \<Rightarrow>
     (case sentence_pooling content sentence_pooling_method of
        Inl e \<Rightarrow> Inl e
      | Inr pooled_vectors \<Rightarrow>
     (case items pooled_vectors of
        Inl e \<Rightarrow> Inl e
      | Inr its \<Rightarrow>
          pool_batch_scalar pad input_ids words_vector sentence_pooling_method counter b
            (texts_vectors @ its))))))"

text \<open>\<^verbatim>\<open>masks_tensor[b]\<close>: the rows of the batch, when the tensor has them.\<close>

definition rows_of :: "'a list \<Rightarrow> nat list \<Rightarrow> error + 'a list" where
  "rows_of t b = (if list_all (\<lambda>i. i < length t) b then Inr (map (\<lambda>i. t ! i) b) else Inl IndexError)"

fun layer_ints :: "pyval \<Rightarrow> int list" where
  "layer_ints (PyList els) = map the_int els"
| "layer_ints _ = []"

text \<open>
  The loop over the batches (lines 236 to 262). It threads the vectors collected so far,
  the offset \<^verbatim>\<open>counter\<close> of the batch and the number of calls of the encoder.
\<close>

fun run_batches ::
  "vectorizer \<Rightarrow> int list list \<Rightarrow> real list list \<Rightarrow> string \<Rightarrow> string \<Rightarrow> pyval \<Rightarrow> bool \<Rightarrow> nat \<Rightarrow>
   nat list list \<Rightarrow> nat \<Rightarrow> pyobj list \<Rightarrow> nat \<Rightarrow> (error + pyobj list) \<times> nat" where
  "run_batches self input_ids masks sentence_pooling_method word_pooling_method layers layer_list
     batch_size [] counter texts_vectors calls = (Inr texts_vectors, calls)"
| "run_batches self input_ids masks sentence_pooling_method word_pooling_method layers layer_list
     batch_size (b # bs) counter texts_vectors calls =
     (case rows_of masks b of
        Inl e \<Rightarrow> (Inl e, calls)
      | Inr masks_b \<Rightarrow>
     (case encoder self (map (\<lambda>i. input_ids ! i) b) (map (map to_int64) masks_b) of
        Inl e \<Rightarrow> (Inl e, Suc calls)
      | Inr encoded_layers_b \<Rightarrow>
     (case (if layer_list
            then pool_batch_list (self_pad_id self) input_ids encoded_layers_b (layer_ints layers)
                   word_pooling_method sentence_pooling_method counter b texts_vectors
            else (case py_index encoded_layers_b (the_int layers) of
                    Inl e \<Rightarrow> Inl e
                  | Inr words_vector \<Rightarrow>
                      pool_batch_scalar (self_pad_id self) input_ids words_vector
                        sentence_pooling_method counter b texts_vectors)) of
        Inl e \<Rightarrow> (Inl e, Suc calls)
      | Inr texts_vectors' \<Rightarrow>
          run_batches self input_ids masks sentence_pooling_method word_pooling_method layers
            layer_list batch_size bs (counter + batch_size) texts_vectors' (Suc calls))))"

text \<open>
  What a call of \<^verbatim>\<open>forward_and_pool\<close> leaves: its value or exception, how often the
  encoder was called, and the file written by \<^verbatim>\<open>torch.save\<close>, if any.
\<close>

record outcome =
  returned :: "error + pyobj list"
  inference_calls :: nat
  saved :: "string option"

definition forward_and_pool ::
  "vectorizer \<Rightarrow> int list list \<Rightarrow> real list list \<Rightarrow> pyval \<Rightarrow> pyval \<Rightarrow> pyval \<Rightarrow> pyval \<Rightarrow> pyval \<Rightarrow> outcome" where
  "forward_and_pool self input_ids_tensor masks_tensor sentence_pooling_method word_pooling_method
     layers batch_size path_to_save =
     (case check_arguments sentence_pooling_method word_pooling_method layers batch_size path_to_save of
        Inl e \<Rightarrow> \<lparr>returned = Inl e, inference_calls = 0, saved = None\<rparr>
      | Inr layer_list \<Rightarrow>
          (let N = length input_ids_tensor;
               n = nat (the_int batch_size);
               (r, calls) = run_batches self input_ids_tensor masks_tensor
                  (the_str sentence_pooling_method) (the_str word_pooling_method) layers layer_list
                  n (batch 0 N n) 0 [] 0
           in case r of
                Inl e \<Rightarrow> \<lparr>returned = Inl e, inference_calls = calls, saved = None\<rparr>
              | Inr texts_vectors \<Rightarrow>
                  \<lparr>returned = Inr texts_vectors, inference_calls = calls,
                   saved = (if path_to_save \<noteq> PyNone then Some (the_str path_to_save @ ''text_vectors'')
                            else None)\<rparr>))"

definition vectorize ::
  "vectorizer \<Rightarrow> string list \<Rightarrow> int \<Rightarrow> pyval \<Rightarrow> pyval \<Rightarrow> pyval \<Rightarrow> pyval \<Rightarrow> pyval \<Rightarrow> outcome" where
  "vectorize self data MAX_LEN sentence_pooling_method word_pooling_method layers batch_size path_to_save =
     (case tokenize self data MAX_LEN of
        Inl e \<Rightarrow> \<lparr>returned = Inl e, inference_calls = 0, saved = None\<rparr>
      | Inr (tokenized_texts, input_ids_tensor, masks_tensor) \<Rightarrow>
          forward_and_pool self input_ids_tensor masks_tensor sentence_pooling_method
            word_pooling_method layers batch_size path_to_save)"

section \<open>Terms of the specification\<close>

text \<open>
  The specification's \<^verbatim>\<open>ValidationError\<close> is what the argument checks raise: a
  \<^verbatim>\<open>ValueError\<close> or a \<^verbatim>\<open>TypeError\<close>.
\<close>

fun validation_error :: "error \<Rightarrow> bool" where
  "validation_error (ValueError m) = True"
| "validation_error (TypeError m) = True"
| "validation_error _ = False"

text \<open>A batch size that is zero, negative or not an integer.\<close>

fun invalid_batch_size :: "pyval \<Rightarrow> bool" where
  "invalid_batch_size (PyInt n) = (n \<le> 0)"
| "invalid_batch_size _ = True"

text \<open>An integer in [1,12].\<close>

fun layer_number :: "pyval \<Rightarrow> bool" where
  "layer_number (PyInt l) = (1 \<le> l \<and> l \<le> 12)"
| "layer_number _ = False"

text \<open>
  The layers the specification admits: an integer in [1,12] or a non-empty list of such
  integers. The layers the code admits: the same, and the empty list.
\<close>

fun spec_layers :: "pyval \<Rightarrow> bool" where
  "spec_layers (PyList els) = (els \<noteq> [] \<and> list_all layer_number els)"
| "spec_layers v = layer_number v"

fun code_layers :: "pyval \<Rightarrow> bool" where
  "code_layers (PyList els) = list_all layer_number els"
| "code_layers v = layer_number v"


definition content :: "nat \<Rightarrow> 'a list \<Rightarrow> 'a list" where
  "content len xs = butlast (tl (take len xs))"

text \<open>
  Entries that are numbers, their values, and entries that the maximum with \<open>v\<close> leaves
  alone: the numbers not below \<open>v\<close>, and NaN.
\<close>

fun finite_entry :: "scalar \<Rightarrow> bool" where
  "finite_entry (Fl a) = True"
| "finite_entry NaN = False"

fun entry_value :: "scalar \<Rightarrow> real" where
  "entry_value (Fl a) = a"
| "entry_value NaN = 0"



fun rank0 :: "pyobj \<Rightarrow> bool" where
  "rank0 (FloatT (T0 s)) = True"
| "rank0 _ = False"

section \<open>Stand-ins for the pretrained tokenizer and encoder\<close>

text \<open>
  Concrete inputs need a tokenizer and an encoder. The tokenizer stand-in knows the
  three documents of the specification's scenario and writes ids as FlauBERT does (0
  opens a sequence, 1 closes it, 2 pads); the encoder stand-in returns, for each of its
  13 layers and each document, a tensor with one row of 768 equal entries per id.
\<close>

definition scenario_ids :: "string \<Rightarrow> int list" where
  "scenario_ids text =
     (if text = ''le chat mange'' then [0, 20, 21, 22, 1]
      else if text = ''le chien court vite'' then [0, 20, 23, 24, 25, 1]
      else if text = ''bonjour'' then [0, 26, 1]
      else [0, 1])"

definition scenario_encode :: "int \<Rightarrow> string \<Rightarrow> int \<Rightarrow> error + int list" where
  "scenario_encode pad text MAX_LEN =
     Inr (take (nat MAX_LEN) (scenario_ids text)
          @ replicate (nat MAX_LEN - length (scenario_ids text)) pad)"

definition scenario_tokenize :: "string \<Rightarrow> error + string list" where
  "scenario_tokenize text = Inr [text]"

definition flat_encoder :: "real \<Rightarrow> int list list \<Rightarrow> int list list \<Rightarrow> error + hidden_states" where
  "flat_encoder v ids masks =
     Inr (replicate 13 (map (\<lambda>row. T2 768 (replicate (length row) (replicate 768 (Fl v)))) ids))"

definition flaubert_stub :: vectorizer where
  "flaubert_stub =
     \<lparr>self_pad_id = 2, tok_tokenize = scenario_tokenize, tok_encode = scenario_encode 2,
      encoder = flat_encoder 0\<rparr>"

definition scenario_data :: "string list" where
  "scenario_data = [''le chat mange'', ''le chien court vite'', ''bonjour'']"


text \<open>The id rows and masks that the tokenizer stand-in gives for the scenario at length 8.\<close>

definition scenario_input_ids :: "int list list" where
  "scenario_input_ids =
     [[0, 20, 21, 22, 1, 2, 2, 2], [0, 20, 23, 24, 25, 1, 2, 2], [0, 26, 1, 2, 2, 2, 2, 2]]"

definition scenario_masks :: "real list list" where
  "scenario_masks =
     [[1, 1, 1, 1, 1, 0, 0, 0], [1, 1, 1, 1, 1, 1, 0, 0], [1, 1, 1, 0, 0, 0, 0, 0]]"

section \<open>Argument checks\<close>

lemma lower_average: "lower ''average'' = ''average''"
  by (simp add: lower_def lower_char_def)

lemma lower_max: "lower ''max'' = ''max''"
  by (simp add: lower_def lower_char_def)


lemma check_layer_list_None: "check_layer_list els = None \<longleftrightarrow> list_all layer_number els"
  by (induction els rule: check_layer_list.induct) auto

lemma check_layers_rejects: "\<not> code_layers layers \<Longrightarrow> \<exists>e. check_layers layers = Inl e"
proof (cases layers)
  case (PyList els)
  assume "\<not> code_layers layers"
  with PyList have "check_layer_list els \<noteq> None"
    by (simp add: check_layer_list_None)
  then obtain e where "check_layer_list els = Some e" by blast
  with PyList show ?thesis by simp
qed auto

lemma check_layers_accepts:
  "code_layers layers \<Longrightarrow> check_layers layers = Inr (case layers of PyList els \<Rightarrow> True | _ \<Rightarrow> False)"
proof (cases layers)
  case (PyList els)
  assume "code_layers layers"
  with PyList have "check_layer_list els = None"
    by (simp add: check_layer_list_None)
  with PyList show ?thesis by simp
qed auto

lemma check_layer_list_error: "check_layer_list els = Some e \<Longrightarrow> validation_error e"
  by (induction els rule: check_layer_list.induct) (auto split: if_splits)

lemma check_layers_error: "check_layers layers = Inl e \<Longrightarrow> validation_error e"
  by (cases layers) (auto split: if_splits option.splits dest: check_layer_list_error)

lemma check_arguments_error:
  "check_arguments spm wpm layers bs path = Inl e \<Longrightarrow> validation_error e"
  by (auto simp: check_arguments_def split: if_splits dest: check_layers_error)

lemma check_arguments_layers:
  "\<not> code_layers layers \<Longrightarrow> \<exists>e. check_arguments spm wpm layers bs path = Inl e"
  using check_layers_rejects [of layers] by (simp add: check_arguments_def)

text \<open>
  Claim C6, as amended. A \<^verbatim>\<open>layers\<close> argument that is neither an integer in [1,12] nor
  a list, possibly empty, of integers in [1,12] makes \<^verbatim>\<open>forward_and_pool\<close> fail with a
  \<^verbatim>\<open>ValueError\<close> or \<^verbatim>\<open>TypeError\<close> of the argument checks, before any call of the encoder.
\<close>

theorem layers_rejected:
  "\<not> code_layers layers \<Longrightarrow>
   (\<exists>e. returned (forward_and_pool self ids masks spm wpm layers batch_size path) = Inl e
        \<and> validation_error e)
   \<and> inference_calls (forward_and_pool self ids masks spm wpm layers batch_size path) = 0"
proof -
  assume "\<not> code_layers layers"
  then obtain e where e: "check_arguments spm wpm layers batch_size path = Inl e"
    using check_arguments_layers by blast
  from check_arguments_error [OF e] e show ?thesis
    by (simp add: forward_and_pool_def)
qed

theorem layers_rejected_witness:
  "\<not> code_layers (PyList [PyInt 11, PyInt 13])
   \<and> (\<exists>e. returned (forward_and_pool flaubert_stub [] [] (PyStr ''average'') (PyStr ''average'')
              (PyList [PyInt 11, PyInt 13]) (PyInt 2) PyNone) = Inl e \<and> validation_error e)
   \<and> inference_calls (forward_and_pool flaubert_stub [] [] (PyStr ''average'') (PyStr ''average'')
              (PyList [PyInt 11, PyInt 13]) (PyInt 2) PyNone) = 0"
  using layers_rejected [of "PyList [PyInt 11, PyInt 13]" flaubert_stub "[]" "[]"
      "PyStr ''average''" "PyStr ''average''" "PyInt 2" PyNone]
  by simp

text \<open>
  Claim C8. A batch size that is zero, negative or not an integer makes
  \<^verbatim>\<open>forward_and_pool\<close> fail with a \<^verbatim>\<open>ValueError\<close> or \<^verbatim>\<open>TypeError\<close> of the argument checks,
  whatever the other arguments are, and the encoder is not called.
\<close>

theorem invalid_batch_size_rejected:
  "invalid_batch_size batch_size \<Longrightarrow>
   (\<exists>e. returned (forward_and_pool self ids masks spm wpm layers batch_size path) = Inl e
        \<and> validation_error e)
   \<and> inference_calls (forward_and_pool self ids masks spm wpm layers batch_size path) = 0"
  by (cases batch_size) (auto simp: forward_and_pool_def check_arguments_def)

theorem invalid_batch_size_rejected_witness:
  "invalid_batch_size (PyInt 0)
   \<and> (\<exists>e. returned (forward_and_pool flaubert_stub [[0, 26, 1, 2]] [[1, 1, 1, 0]]
              (PyStr ''average'') (PyStr ''average'') (PyInt 11) (PyInt 0) PyNone) = Inl e
          \<and> validation_error e)
   \<and> inference_calls (forward_and_pool flaubert_stub [[0, 26, 1, 2]] [[1, 1, 1, 0]]
              (PyStr ''average'') (PyStr ''average'') (PyInt 11) (PyInt 0) PyNone) = 0"
  using invalid_batch_size_rejected [of "PyInt 0" flaubert_stub "[[0, 26, 1, 2]]" "[[1, 1, 1, 0]]"
      "PyStr ''average''" "PyStr ''average''" "PyInt 11" PyNone]
  by simp

section \<open>True length and pooled span\<close>




text \<open>
  Claim C2. With the CamemBERT entry of \<^verbatim>\<open>MODELS\<close> the pad id is 1, the very number the
  code compares the last id with. A padded row therefore takes the branch meant for a
  row that ends with the closing marker: its true length is 0 instead of 3, the position
  of the first pad.
\<close>

theorem camembert_padded_row:
  "map_option pad_id (MODELS ''camembert'') = Some 1
   \<and> eos_position 1 [5, 1011, 6, 1, 1, 1, 1, 1] = Inr 0
   \<and> first_index (\<lambda>i. i = 1) [5, 1011, 6, 1, 1, 1, 1, 1 :: int] = Some 3"
  by (simp add: MODELS_def eos_position_def)



text \<open>
  Claim C4. For the method \<^verbatim>\<open>max\<close>, \<^verbatim>\<open>__sentence_pooling\<close> returns what
  \<^verbatim>\<open>torch.max(vectors, axis=0)\<close> returns: the pair of the maxima and of their positions,
  not one vector.
\<close>

theorem sentence_pooling_max_pair:
  "sentence_pooling (T2 2 [[Fl 1, Fl 5], [Fl 3, Fl 2], [Fl 2, Fl 4]]) ''max''
     = Inr (MaxT (T1 [Fl 3, Fl 5]) (L1 [1, 0]))"
  by (simp add: sentence_pooling_def lower_max column_def max_list_def argmax_list_def upt_conv_Cons)

section \<open>tokenize and the scenario\<close>



lemma flaubert_stub_built:
  "Vectorizer scenario_tokenize (scenario_encode 2) (flat_encoder 0) ''FlauBERT'' = Inr flaubert_stub"
  by (simp add: Vectorizer_def MODELS_def lower_def lower_char_def flaubert_stub_def)

lemma tokenize_scenario:
  "tokenize flaubert_stub scenario_data 8 =
     Inr ([[''le chat mange''], [''le chien court vite''], [''bonjour'']],
          scenario_input_ids, scenario_masks)"
  by (simp add: tokenize_def flaubert_stub_def scenario_data_def scenario_encode_def
      scenario_tokenize_def scenario_ids_def rectangular_def scenario_input_ids_def
      scenario_masks_def eval_nat_numeral)

lemma batch_3_2: "batch 0 3 2 = [[0, 1], [2]]"
  by code_simp

text \<open>
  Claim C1. In the scenario of the specification (three documents, length 8, batches of
  2, layer 11 given as an integer, averages) the encoder is called twice and the result
  is a list of 2304 tensors of rank 0: the loop over the pooled vector appends its 768
  entries one by one, for each of the three documents.
\<close>

theorem scenario_scalar_layer:
  "\<not> isl (returned (vectorize flaubert_stub scenario_data 8 (PyStr ''average'') (PyStr ''average'')
             (PyInt 11) (PyInt 2) PyNone))
   \<and> length (projr (returned (vectorize flaubert_stub scenario_data 8 (PyStr ''average'')
             (PyStr ''average'') (PyInt 11) (PyInt 2) PyNone))) = 2304
   \<and> list_all rank0 (projr (returned (vectorize flaubert_stub scenario_data 8 (PyStr ''average'')
             (PyStr ''average'') (PyInt 11) (PyInt 2) PyNone)))
   \<and> inference_calls (vectorize flaubert_stub scenario_data 8 (PyStr ''average'')
             (PyStr ''average'') (PyInt 11) (PyInt 2) PyNone) = 2"
  apply (simp add: vectorize_def tokenize_scenario forward_and_pool_def check_arguments_def batch_3_2)
  apply (simp add: scenario_input_ids_def scenario_masks_def flaubert_stub_def flat_encoder_def
      rows_of_def py_index_def eos_position_def slice_to_def slice_from1_def sentence_pooling_def
      lower_average)
  apply (simp add: list.pred_map comp_def list_all_iff)
  done




section \<open>Word pooling: shapes\<close>








text \<open>
  A hidden state of one position is broadcast over the 256 rows of the placeholder.
\<close>

lemma word_pooling_one_position:
  "word_pooling [[T2 768 [replicate 768 (Fl 1)]]] [0] 0 ''max''
     = Inr (T2 768 (replicate 256 (replicate 768 (Fl 1))))"
  by (simp add: word_pooling_def lower_max lower_def lower_char_def placeholder_def layer_doc_def
      py_index_def broadcast2_def bdim_def expand_def zip_replicate map_replicate_const)



section \<open>Word pooling: values\<close>

lemma expand_same: "length xs = n \<Longrightarrow> expand n xs = xs"
  by (simp add: expand_def)






lemma broadcast2_same:
  assumes "length ra = length rb"
    and "\<forall>r \<in> set ra. length r = c" and "\<forall>r \<in> set rb. length r = c"
  shows "broadcast2 f (T2 c ra) (T2 c rb) = Inr (T2 c (map2 (map2 f) ra rb))"
proof -
  have "map2 (\<lambda>x y. map2 f (expand c x) (expand c y)) ra rb = map2 (map2 f) ra rb"
  proof (rule map_cong [OF refl])
    fix p assume mem: "p \<in> set (zip ra rb)"
    obtain a b where p: "p = (a, b)"
      by (cases p)
    with mem have "a \<in> set ra" "b \<in> set rb"
      by (auto dest: set_zip_leftD set_zip_rightD)
    with assms(2,3) p
    show "(case p of (x, y) \<Rightarrow> map2 f (expand c x) (expand c y)) = (case p of (x, y) \<Rightarrow> map2 f x y)"
      by (simp add: expand_same)
  qed
  then show ?thesis
    using assms(1) by (simp add: broadcast2_def bdim_def expand_same)
qed



text \<open>
  Claim C6, counterexample. The empty list of layers passes the checks: on the scenario
  \<^verbatim>\<open>forward_and_pool\<close> returns three pooled vectors.
\<close>

theorem empty_layers_accepted:
  "\<not> spec_layers (PyList [])
   \<and> \<not> isl (returned (forward_and_pool flaubert_stub scenario_input_ids scenario_masks
             (PyStr ''average'') (PyStr ''max'') (PyList []) (PyInt 2) PyNone))
   \<and> length (projr (returned (forward_and_pool flaubert_stub scenario_input_ids scenario_masks
             (PyStr ''average'') (PyStr ''max'') (PyList []) (PyInt 2) PyNone))) = 3"
  apply (simp add: forward_and_pool_def check_arguments_def batch_3_2 scenario_input_ids_def)
  apply (simp add: scenario_masks_def flaubert_stub_def flat_encoder_def
      rows_of_def py_index_def eos_position_def slice_to_def slice_from1_def sentence_pooling_def
      word_pooling_def placeholder_def lower_average lower_max lower_def lower_char_def)
  done



section \<open>Word pooling: the maximum over the layers\<close>

lemma map2_rows:
  assumes "length ra = n" and "length rb = n"
    and "\<forall>r \<in> set ra. length r = c" and "\<forall>r \<in> set rb. length r = c"
  shows "length (map2 (map2 f) ra rb) = n"
    and "\<forall>r \<in> set (map2 (map2 f) ra rb). length r = c"
    and "i < n \<Longrightarrow> j < c \<Longrightarrow> map2 (map2 f) ra rb ! i ! j = f (ra ! i ! j) (rb ! i ! j)"
proof -
  show "length (map2 (map2 f) ra rb) = n"
    using assms(1,2) by simp
  show "\<forall>r \<in> set (map2 (map2 f) ra rb). length r = c"
  proof
    fix r assume "r \<in> set (map2 (map2 f) ra rb)"
    then obtain a b where ab: "(a, b) \<in> set (zip ra rb)" "r = map2 f a b"
      by auto
    from ab(1) have "a \<in> set ra"
      by (rule set_zip_leftD)
    moreover from ab(1) have "b \<in> set rb"
      by (rule set_zip_rightD)
    ultimately show "length r = c"
      using assms(3,4) ab(2) by simp
  qed
  show "map2 (map2 f) ra rb ! i ! j = f (ra ! i ! j) (rb ! i ! j)" if "i < n" "j < c"
  proof -
    from that(1) assms(1,2) have "map2 (map2 f) ra rb ! i = map2 f (ra ! i) (rb ! i)"
      by simp
    moreover from that(1) assms have "length (ra ! i) = c" "length (rb ! i) = c"
      by simp_all
    ultimately show ?thesis
      using that(2) by simp
  qed
qed

lemma pool_layers_values:
  assumes "\<forall>l \<in> set layers. layer_doc enc l idx = Inr (T2 768 (H l)) \<and> length (H l) = 256
             \<and> (\<forall>r \<in> set (H l). length r = 768)"
    and "length acc = 256" and "\<forall>r \<in> set acc. length r = 768"
  shows "\<exists>acc'. pool_layers (broadcast2 f) enc idx layers (T2 768 acc) = Inr (T2 768 acc')
           \<and> length acc' = 256 \<and> (\<forall>r \<in> set acc'. length r = 768)
           \<and> (\<forall>i < 256. \<forall>j < 768.
                 acc' ! i ! j = foldl f (acc ! i ! j) (map (\<lambda>l. H l ! i ! j) layers))"
  using assms
proof (induction layers arbitrary: acc)
  case Nil
  then show ?case by simp
next
  case (Cons l layers)
  let ?acc1 = "map2 (map2 f) acc (H l)"
  from Cons.prems(1) have l: "layer_doc enc l idx = Inr (T2 768 (H l))" "length (H l) = 256"
      "\<forall>r \<in> set (H l). length r = 768"
    by simp_all
  from Cons.prems(1) have rest: "\<forall>l \<in> set layers. layer_doc enc l idx = Inr (T2 768 (H l))
      \<and> length (H l) = 256 \<and> (\<forall>r \<in> set (H l). length r = 768)"
    by simp
  have step: "broadcast2 f (T2 768 acc) (T2 768 (H l)) = Inr (T2 768 ?acc1)"
    using broadcast2_same [of acc "H l" 768 f] Cons.prems(2,3) l(2,3) by simp
  note rows = map2_rows [OF Cons.prems(2) l(2) Cons.prems(3) l(3), where f = f]
  from Cons.IH [OF rest rows(1) rows(2)]
  obtain acc' where acc': "pool_layers (broadcast2 f) enc idx layers (T2 768 ?acc1) = Inr (T2 768 acc')"
      "length acc' = 256" "\<forall>r \<in> set acc'. length r = 768"
      "\<forall>i < 256. \<forall>j < 768. acc' ! i ! j = foldl f (?acc1 ! i ! j) (map (\<lambda>l. H l ! i ! j) layers)"
    by blast
  have "acc' ! i ! j = foldl f (acc ! i ! j) (map (\<lambda>l. H l ! i ! j) (l # layers))"
    if "i < 256" "j < 768" for i j
    using acc'(4) rows(3) [OF that] that by simp
  with acc'(1,2,3) l(1) step show ?case
    by simp
qed

lemma Max_insert_max:
  fixes a b :: real
  assumes "finite S"
  shows "Max (insert (max b a) S) = Max (insert b (insert a S))"
proof (cases "S = {}")
  case True
  then show ?thesis by (simp add: max.commute)
next
  case False
  with assms show ?thesis by (simp add: max.assoc)
qed

lemma foldl_fmax_finite:
  "\<forall>x \<in> set xs. finite_entry x \<Longrightarrow>
   foldl fmax (Fl b) xs = Fl (Max (insert b (entry_value ` set xs)))"
proof (induction xs arbitrary: b)
  case Nil
  then show ?case by simp
next
  case (Cons x xs)
  then obtain a where x: "x = Fl a"
    by (cases x) auto
  from Cons.prems have "\<forall>x \<in> set xs. finite_entry x"
    by simp
  from Cons.IH [OF this, of "max b a"] x show ?case
    by (simp add: Max_insert_max)
qed

text \<open>
  Claim C10. For the method \<^verbatim>\<open>max\<close> and layers whose hidden states have 256 positions of
  768 features, the pooled entry at a position and coordinate is the maximum, taken from
  the start value -100 on, over the selected layers: for numbers, the greatest of -100
  and the layers' values, so -100 itself when every layer is below -100 there.
\<close>

theorem word_pooling_max_clamped:
  assumes "\<forall>l \<in> set layers. layer_doc enc l idx = Inr (T2 768 (H l)) \<and> length (H l) = 256
             \<and> (\<forall>r \<in> set (H l). length r = 768)"
    and "i < 256" and "j < 768"
  shows "\<exists>rows. word_pooling enc layers idx ''max'' = Inr (T2 768 rows)
     \<and> rows ! i ! j = foldl fmax (Fl (- 100)) (map (\<lambda>l. H l ! i ! j) layers)
     \<and> ((\<forall>l \<in> set layers. finite_entry (H l ! i ! j)) \<longrightarrow>
          rows ! i ! j = Fl (Max (insert (- 100) ((\<lambda>l. entry_value (H l ! i ! j)) ` set layers))))
     \<and> ((\<forall>l \<in> set layers. finite_entry (H l ! i ! j) \<and> entry_value (H l ! i ! j) < - 100) \<longrightarrow>
          rows ! i ! j = Fl (- 100))"
proof -
  have wf: "length (replicate 256 (replicate 768 (Fl (- 100)))) = 256"
      "\<forall>r \<in> set (replicate 256 (replicate 768 (Fl (- 100)))). length r = 768"
    by simp_all
  from pool_layers_values [OF assms(1) wf, of fmax]
  obtain rows where rows:
      "pool_layers (broadcast2 fmax) enc idx layers (placeholder (- 100)) = Inr (T2 768 rows)"
      "\<forall>i < 256. \<forall>j < 768. rows ! i ! j =
         foldl fmax (replicate 256 (replicate 768 (Fl (- 100))) ! i ! j) (map (\<lambda>l. H l ! i ! j) layers)"
    unfolding placeholder_def by blast
  from rows(2) assms(2,3)
  have val: "rows ! i ! j = foldl fmax (Fl (- 100)) (map (\<lambda>l. H l ! i ! j) layers)"
    by simp
  have fin: "rows ! i ! j = Fl (Max (insert (- 100) ((\<lambda>l. entry_value (H l ! i ! j)) ` set layers)))"
    if "\<forall>l \<in> set layers. finite_entry (H l ! i ! j)"
    using that val foldl_fmax_finite [of "map (\<lambda>l. H l ! i ! j) layers" "- 100"]
    by (simp add: image_image)
  have low: "rows ! i ! j = Fl (- 100)"
    if "\<forall>l \<in> set layers. finite_entry (H l ! i ! j) \<and> entry_value (H l ! i ! j) < - 100"
  proof -
    from that have "Max (insert (- 100) ((\<lambda>l. entry_value (H l ! i ! j)) ` set layers)) = - 100"
      by (intro Max_eqI) auto
    with fin that show ?thesis by simp
  qed
  from rows(1) val fin low show ?thesis
    by (simp add: word_pooling_def lower_max lower_def lower_char_def)
qed

theorem word_pooling_max_clamped_witness:
  "\<exists>rows. word_pooling (replicate 13 [T2 768 (replicate 256 (replicate 768 (Fl (- 200))))]) [11, 12] 0 ''max''
            = Inr (T2 768 rows)
     \<and> rows ! 0 ! 0 = Fl (- 100)"
  using word_pooling_max_clamped [of "[11, 12]"
      "replicate 13 [T2 768 (replicate 256 (replicate 768 (Fl (- 200))))]" 0
      "\<lambda>l. replicate 256 (replicate 768 (Fl (- 200)))" 0 0]
  by (simp add: layer_doc_def py_index_def)

end
